theory Spec2Isabelle
  imports Main
begin

section \<open>The query-plan data model of question\_answer\_subquery.py\<close>

text \<open>
  The source file declares three schema classes (\<^verbatim>\<open>QueryType\<close>, \<^verbatim>\<open>Query\<close>,
  \<^verbatim>\<open>QueryPlan\<close>) and prints a plan with \<^verbatim>\<open>plan.dict()\<close>. Everything else in the
  file is the exchange with the hosted model. The classes carry no methods of their own:
  what they do is fixed by their field declarations (type, required or default), so the
  embedding is a record per class, a constructor that returns a validation error or the
  record, and the dictionary view of a record.

  Constructor arguments are typed as the fields are declared (\<^verbatim>\<open>int\<close>, \<^verbatim>\<open>str\<close>,
  \<^verbatim>\<open>List[int]\<close>, \<^verbatim>\<open>bool\<close>); an argument the caller leaves out is \<open>None\<close>. The one
  field whose declared type is narrower than its wire type is \<^verbatim>\<open>node_type\<close>: the caller
  hands over a string and the enumeration is looked up by value. Coercion of arguments of
  another Python type (a numeric string for \<^verbatim>\<open>id\<close>, say) is outside the model.
\<close>

subsection \<open>QueryType\<close>

text \<open>
  \<^verbatim>\<open>
  class QueryType(str, enum.Enum):
      SINGLE_QUESTION = "SINGLE"
      MERGE_MULTIPLE_RESPONSES = "MERGE_MULTIPLE_RESPONSES"
  \<close>
\<close>

datatype QueryType = SINGLE_QUESTION | MERGE_MULTIPLE_RESPONSES

text \<open>The members in definition order, as iterating the class yields them.\<close>

definition QueryType_members :: "QueryType list" where
  "QueryType_members = [SINGLE_QUESTION, MERGE_MULTIPLE_RESPONSES]"

text \<open>The \<^verbatim>\<open>.name\<close> of a member: the identifier it is bound to in the class body.\<close>

fun QueryType_name :: "QueryType \<Rightarrow> string" where
  "QueryType_name SINGLE_QUESTION = ''SINGLE_QUESTION''"
| "QueryType_name MERGE_MULTIPLE_RESPONSES = ''MERGE_MULTIPLE_RESPONSES''"

text \<open>The \<^verbatim>\<open>.value\<close> of a member; as the class mixes in \<^verbatim>\<open>str\<close>, the member is this string.\<close>

fun QueryType_value :: "QueryType \<Rightarrow> string" where
  "QueryType_value SINGLE_QUESTION = ''SINGLE''"
| "QueryType_value MERGE_MULTIPLE_RESPONSES = ''MERGE_MULTIPLE_RESPONSES''"

text \<open>
  The call \<^verbatim>\<open>QueryType(v)\<close>: the member whose value equals \<open>v\<close>; \<open>None\<close> stands for
  the \<^verbatim>\<open>ValueError\<close> raised when there is none.
\<close>

definition QueryType_call :: "string \<Rightarrow> QueryType option" where
  "QueryType_call v = find (\<lambda>m. QueryType_value m = v) QueryType_members"

subsection \<open>Validation errors\<close>

text \<open>
  A failed construction raises one \<^verbatim>\<open>ValidationError\<close> that lists, per offending
  field, where it is (field names and list indices from the outermost model inwards) and
  what is wrong with it.
\<close>

datatype loc_item = Key string | Index nat

datatype error_type = FieldRequired | NotAnEnumMember

type_synonym error_list = "(loc_item list \<times> error_type) list"

datatype error = ValidationError error_list

text \<open>A field declared with \<^verbatim>\<open>Field(...)\<close> has no default: leaving it out is an error.\<close>

definition validate_required :: "'a option \<Rightarrow> error_type + 'a" where
  "validate_required arg = (case arg of None \<Rightarrow> Inl FieldRequired | Some v \<Rightarrow> Inr v)"

text \<open>A field with a default takes it when the argument is left out.\<close>

definition validate_default :: "'a \<Rightarrow> 'a option \<Rightarrow> 'a" where
  "validate_default d arg = (case arg of None \<Rightarrow> d | Some v \<Rightarrow> v)"

text \<open>
  \<^verbatim>\<open>node_type: QueryType = Field(default=QueryType.SINGLE_QUESTION, ...)\<close>: the
  default is taken as it is, a supplied value goes through \<^verbatim>\<open>QueryType(v)\<close>.
\<close>

definition validate_node_type :: "string option \<Rightarrow> error_type + QueryType" where
  "validate_node_type arg =
     (case arg of
        None \<Rightarrow> Inr SINGLE_QUESTION
      | Some v \<Rightarrow> (case QueryType_call v of None \<Rightarrow> Inl NotAnEnumMember | Some m \<Rightarrow> Inr m))"

definition errors_of :: "string \<Rightarrow> error_type + 'a \<Rightarrow> error_list" where
  "errors_of name r = (case r of Inl e \<Rightarrow> [([Key name], e)] | Inr _ \<Rightarrow> [])"

subsection \<open>Query\<close>

text \<open>
  \<^verbatim>\<open>
  class Query(OpenAISchema):
      id: int = Field(..., description=...)
      question: str = Field(..., description=...)
      dependancies: List[int] = Field(default_factory=list, description=...)
      node_type: QueryType = Field(default=QueryType.SINGLE_QUESTION, description=...)
      original_question: bool = Field(default=False, description=...)
  \<close>
  The field \<^verbatim>\<open>id\<close> is written \<open>id'\<close>, since \<open>id\<close> is the identity function of HOL;
  \<^verbatim>\<open>dependancies\<close> is the source's spelling.
\<close>

record Query =
  id' :: int
  question :: string
  dependancies :: "int list"
  node_type :: QueryType
  original_question :: bool

text \<open>
  \<^verbatim>\<open>Query(id=..., question=..., dependancies=..., node_type=..., original_question=...)\<close>.
  Every field is checked and the errors of all fields are reported together, in
  declaration order. The fields of type \<^verbatim>\<open>int\<close>, \<^verbatim>\<open>str\<close>, \<^verbatim>\<open>List[int]\<close> and \<^verbatim>\<open>bool\<close>
  carry no constraint (no bound, no minimum length, no validator), so a supplied value of
  the declared type is stored as it is.
\<close>

definition Query_init ::
  "int option \<Rightarrow> string option \<Rightarrow> int list option \<Rightarrow> string option \<Rightarrow> bool option
     \<Rightarrow> error + Query" where
  "Query_init i q ds nt oq =
     (let ri = validate_required i;
          rq = validate_required q;
          rt = validate_node_type nt
      in case (ri, rq, rt) of
           (Inr i', Inr q', Inr t) \<Rightarrow>
             Inr \<lparr>id' = i', question = q', dependancies = validate_default [] ds,
                  node_type = t, original_question = validate_default False oq\<rparr>
         | _ \<Rightarrow>
             Inl (ValidationError
                    (errors_of ''id'' ri @ errors_of ''question'' rq @ errors_of ''node_type'' rt)))"

subsection \<open>QueryPlan\<close>

text \<open>
  \<^verbatim>\<open>
  class QueryPlan(OpenAISchema):
      query_graph: List[Query] = Field(..., description=...)
  \<close>
  An element handed to the constructor is either a \<^verbatim>\<open>Query\<close> object, taken as it is,
  or the keyword arguments of one (a parsed response), built with \<open>Query_init\<close>.
\<close>

record QueryPlan =
  query_graph :: "Query list"

datatype query_arg =
    Instance Query
  | Kwargs "int option" "string option" "int list option" "string option" "bool option"

fun Query_validate :: "query_arg \<Rightarrow> error + Query" where
  "Query_validate (Instance q) = Inr q"
| "Query_validate (Kwargs i q ds nt oq) = Query_init i q ds nt oq"

text \<open>
  The elements of the list are validated one by one, in order; the errors of element
  \<open>n\<close> are reported below index \<open>n\<close>, and the list is only built when there is none.
\<close>

fun validate_items :: "nat \<Rightarrow> query_arg list \<Rightarrow> error_list \<times> Query list" where
  "validate_items n [] = ([], [])"
| "validate_items n (a # as) =
     (let (es, qs) = validate_items (Suc n) as
      in case Query_validate a of
           Inl (ValidationError e) \<Rightarrow> (map (\<lambda>(l, t). (Index n # l, t)) e @ es, qs)
         | Inr q \<Rightarrow> (es, q # qs))"

definition QueryPlan_init :: "query_arg list option \<Rightarrow> error + QueryPlan" where
  "QueryPlan_init arg =
     (case arg of
        None \<Rightarrow> Inl (ValidationError [([Key ''query_graph''], FieldRequired)])
      | Some as \<Rightarrow>
          (case validate_items 0 as of
             ([], qs) \<Rightarrow> Inr \<lparr>query_graph = qs\<rparr>
           | (es, _) \<Rightarrow>
               Inl (ValidationError (map (\<lambda>(l, t). (Key ''query_graph'' # l, t)) es))))"

subsection \<open>The dictionary view\<close>

text \<open>
  \<^verbatim>\<open>pprint(plan.dict())\<close>: a model becomes a dictionary from field names to values, in
  declaration order, nested models and lists of models recursively. Every declared field
  is included, whether it was supplied or took its default. The output quoted at the end
  of the source shows the keys \<^verbatim>\<open>'dependancies'\<close>, \<^verbatim>\<open>'id'\<close>, \<^verbatim>\<open>'node_type'\<close> and
  \<^verbatim>\<open>'question'\<close> (sorted by the printer); it does not list \<^verbatim>\<open>'original_question'\<close>,
  which the class as it stands declares and \<^verbatim>\<open>dict()\<close> therefore returns.
  A \<^verbatim>\<open>QueryType\<close> member is a string (its value), so it appears as one.
\<close>

datatype pyval =
    PyInt int
  | PyStr string
  | PyBool bool
  | PyList "pyval list"
  | PyDict "(string \<times> pyval) list"

definition Query_dict :: "Query \<Rightarrow> pyval" where
  "Query_dict q =
     PyDict [(''id'', PyInt (id' q)),
             (''question'', PyStr (question q)),
             (''dependancies'', PyList (map PyInt (dependancies q))),
             (''node_type'', PyStr (QueryType_value (node_type q))),
             (''original_question'', PyBool (original_question q))]"

definition QueryPlan_dict :: "QueryPlan \<Rightarrow> pyval" where
  "QueryPlan_dict p = PyDict [(''query_graph'', PyList (map Query_dict (query_graph p)))]"

text \<open>Reading a dictionary: its keys in order, and the value at a key.\<close>

fun dict_keys :: "pyval \<Rightarrow> string list" where
  "dict_keys (PyDict kvs) = map fst kvs"
| "dict_keys _ = []"

fun dict_get :: "pyval \<Rightarrow> string \<Rightarrow> pyval option" where
  "dict_get (PyDict kvs) k = map_of kvs k"
| "dict_get _ k = None"

fun is_int :: "pyval \<Rightarrow> bool" where
  "is_int (PyInt _) = True"
| "is_int _ = False"

fun is_str :: "pyval \<Rightarrow> bool" where
  "is_str (PyStr _) = True"
| "is_str _ = False"

fun is_bool :: "pyval \<Rightarrow> bool" where
  "is_bool (PyBool _) = True"
| "is_bool _ = False"

fun is_int_list :: "pyval \<Rightarrow> bool" where
  "is_int_list (PyList vs) = list_all is_int vs"
| "is_int_list _ = False"


section \<open>Properties\<close>

subsection \<open>Auxiliary facts\<close>

lemma QueryType_call_cases:
  "QueryType_call v =
     (if v = ''SINGLE'' then Some SINGLE_QUESTION
      else if v = ''MERGE_MULTIPLE_RESPONSES'' then Some MERGE_MULTIPLE_RESPONSES else None)"
  by (simp add: QueryType_call_def QueryType_members_def)

lemma QueryType_call_value: "QueryType_call (QueryType_value m) = Some m"
  by (cases m) (simp_all add: QueryType_call_cases)

lemma Query_init_supplied:
  "Query_init (Some i) (Some q) (Some ds) (map_option QueryType_value nt) oq =
     Inr \<lparr>id' = i, question = q, dependancies = ds,
          node_type = (case nt of None \<Rightarrow> SINGLE_QUESTION | Some m \<Rightarrow> m),
          original_question = (case oq of None \<Rightarrow> False | Some b \<Rightarrow> b)\<rparr>"
  by (cases nt; cases oq)
     (simp_all add: Query_init_def validate_required_def validate_default_def
        validate_node_type_def QueryType_call_value)

lemma Query_init_fields:
  "Query_init (Some i) (Some q) ds nt oq = Inr r \<Longrightarrow> id' r = i \<and> question r = q"
  by (auto simp: Query_init_def validate_required_def Let_def split: sum.splits)

text \<open>A failed construction always names at least one field.\<close>

lemma Query_init_errors_nonempty: "Query_init i q ds nt oq \<noteq> Inl (ValidationError [])"
  by (auto simp: Query_init_def validate_required_def validate_node_type_def errors_of_def
        Let_def split: option.splits)

lemma Query_validate_errors_nonempty: "Query_validate a \<noteq> Inl (ValidationError [])"
  by (cases a) (simp_all add: Query_init_errors_nonempty)

lemma validate_items_Instance: "validate_items n (map Instance qs) = ([], qs)"
  by (induction qs arbitrary: n) simp_all

text \<open>
  When no element reports an error, the list that is built holds the validated elements,
  one per argument and in the order of the arguments.
\<close>

lemma validate_items_no_errors:
  "validate_items n as = ([], qs) \<Longrightarrow> map Query_validate as = map Inr qs"
proof (induction as arbitrary: n qs)
  case Nil
  then show ?case by simp
next
  case (Cons a as)
  obtain es qs' where rest: "validate_items (Suc n) as = (es, qs')"
    by (cases "validate_items (Suc n) as")
  show ?case
  proof (cases "Query_validate a")
    case (Inl e)
    obtain l where e: "e = ValidationError l" by (cases e)
    with Inl Cons.prems rest have "map (\<lambda>(l, t). (Index n # l, t)) l @ es = []"
      by simp
    then have "l = []" by simp
    with Inl e Query_validate_errors_nonempty [of a] show ?thesis by simp
  next
    case (Inr q)
    with Cons.prems rest have "es = []" "qs = q # qs'" by simp_all
    with Cons.IH rest Inr show ?thesis by simp
  qed
qed

lemma QueryPlan_init_nodes:
  assumes ok: "QueryPlan_init (Some as) = Inr p"
  shows "map Query_validate as = map Inr (query_graph p)"
proof -
  obtain es qs where items: "validate_items 0 as = (es, qs)"
    by (cases "validate_items 0 as")
  with ok have "es = []" "p = \<lparr>query_graph = qs\<rparr>"
    by (auto simp: QueryPlan_init_def split: list.splits)
  with items validate_items_no_errors [of 0 as qs] show ?thesis by simp
qed

lemma Query_init_typed:
  "Query_init (Some i) (Some q) ds (map_option QueryType_value nt) oq =
     Inr \<lparr>id' = i, question = q,
          dependancies = (case ds of None \<Rightarrow> [] | Some d \<Rightarrow> d),
          node_type = (case nt of None \<Rightarrow> SINGLE_QUESTION | Some m \<Rightarrow> m),
          original_question = (case oq of None \<Rightarrow> False | Some b \<Rightarrow> b)\<rparr>"
  by (cases nt; cases oq; cases ds)
     (simp_all add: Query_init_def validate_required_def validate_default_def
        validate_node_type_def QueryType_call_value)

text \<open>
  A list whose elements are \<^verbatim>\<open>Query\<close> objects (\<open>Inl\<close>) or the keyword arguments of one
  (\<open>Inr\<close>: an integer, a string, and optionally a list of integers, a kind and a flag)
  reports no error, and every element yields its node.
\<close>

lemma validate_items_typed:
  "validate_items n
     (map (case_sum Instance
             (\<lambda>(i, q, ds, nt, oq).
                Kwargs (Some i) (Some q) ds (map_option QueryType_value nt) oq)) xs) =
     ([], map (case_sum (\<lambda>q. q)
                 (\<lambda>(i, q, ds, nt, oq).
                    \<lparr>id' = i, question = q,
                     dependancies = (case ds of None \<Rightarrow> [] | Some d \<Rightarrow> d),
                     node_type = (case nt of None \<Rightarrow> SINGLE_QUESTION | Some m \<Rightarrow> m),
                     original_question = (case oq of None \<Rightarrow> False | Some b \<Rightarrow> b)\<rparr>)) xs)"
proof (induction xs arbitrary: n)
  case Nil
  show ?case by simp
next
  case (Cons x xs)
  show ?case
  proof (cases x)
    case (Inl q)
    with Cons.IH [of "Suc n"] show ?thesis by simp
  next
    case (Inr t)
    obtain i q ds nt oq where "t = (i, q, ds, nt, oq)" by (cases t)
    with Inr Cons.IH [of "Suc n"] show ?thesis
      by (simp add: Query_init_typed)
  qed
qed

subsection \<open>The node kind\<close>

text \<open>
  Claim C4, amended. The node-kind enumeration has exactly two members, named
  \<^verbatim>\<open>SINGLE_QUESTION\<close> and \<^verbatim>\<open>MERGE_MULTIPLE_RESPONSES\<close>, whose string values are
  \<^verbatim>\<open>"SINGLE"\<close> and \<^verbatim>\<open>"MERGE_MULTIPLE_RESPONSES"\<close>. The \<^verbatim>\<open>node_type\<close> entry of a
  serialized node is the value of the node's member, hence one of these two strings.
  Construction lets no other kind in: a node built with a string for \<^verbatim>\<open>node_type\<close> exists
  only if the string is one of the two values, and it serializes to that string; a node
  built without one serializes to \<^verbatim>\<open>"SINGLE"\<close>.
\<close>

theorem QueryType_members_and_values:
  "map QueryType_name QueryType_members = [''SINGLE_QUESTION'', ''MERGE_MULTIPLE_RESPONSES'']
   \<and> map QueryType_value QueryType_members = [''SINGLE'', ''MERGE_MULTIPLE_RESPONSES'']
   \<and> dict_get (Query_dict n) ''node_type'' = Some (PyStr (QueryType_value (node_type n)))
   \<and> QueryType_value (node_type n) \<in> set (map QueryType_value QueryType_members)
   \<and> (Query_init i q ds (Some s) oq = Inr r \<longrightarrow>
        s \<in> set (map QueryType_value QueryType_members)
        \<and> dict_get (Query_dict r) ''node_type'' = Some (PyStr s))
   \<and> (Query_init i q ds None oq = Inr r \<longrightarrow>
        dict_get (Query_dict r) ''node_type'' = Some (PyStr ''SINGLE''))"
proof -
  have names: "map QueryType_name QueryType_members =
                 [''SINGLE_QUESTION'', ''MERGE_MULTIPLE_RESPONSES'']"
    and vals: "map QueryType_value QueryType_members = [''SINGLE'', ''MERGE_MULTIPLE_RESPONSES'']"
    by (simp_all add: QueryType_members_def)
  have get: "dict_get (Query_dict n) ''node_type'' = Some (PyStr (QueryType_value (node_type n)))"
    by (simp add: Query_dict_def)
  have mem: "QueryType_value (node_type n) \<in> set (map QueryType_value QueryType_members)"
    by (cases "node_type n") (simp_all add: QueryType_members_def)
  have given: "s \<in> set (map QueryType_value QueryType_members)
               \<and> dict_get (Query_dict r) ''node_type'' = Some (PyStr s)"
    if "Query_init i q ds (Some s) oq = Inr r"
    using that
    by (auto simp: Query_init_def validate_node_type_def QueryType_call_cases Let_def
          Query_dict_def QueryType_members_def split: sum.splits if_splits)
  have omitted: "dict_get (Query_dict r) ''node_type'' = Some (PyStr ''SINGLE'')"
    if "Query_init i q ds None oq = Inr r"
    using that
    by (auto simp: Query_init_def validate_node_type_def Let_def Query_dict_def
          split: sum.splits)
  from names vals get mem given omitted show ?thesis by blast
qed

theorem QueryType_members_and_values_witness:
  "Query_init (Some 4) (Some ''Calculate the difference'') (Some [2, 3])
     (Some ''MERGE_MULTIPLE_RESPONSES'') None =
     Inr \<lparr>id' = 4, question = ''Calculate the difference'', dependancies = [2, 3],
          node_type = MERGE_MULTIPLE_RESPONSES, original_question = False\<rparr>
   \<and> ''MERGE_MULTIPLE_RESPONSES'' \<in> set (map QueryType_value QueryType_members)
   \<and> dict_get (Query_dict
        \<lparr>id' = 4, question = ''Calculate the difference'', dependancies = [2, 3],
         node_type = MERGE_MULTIPLE_RESPONSES, original_question = False\<rparr>) ''node_type'' =
       Some (PyStr ''MERGE_MULTIPLE_RESPONSES'')
   \<and> Query_init (Some 2) (Some ''Find the population of Canada'') None None None =
       Inr \<lparr>id' = 2, question = ''Find the population of Canada'', dependancies = [],
            node_type = SINGLE_QUESTION, original_question = False\<rparr>
   \<and> dict_get (Query_dict
        \<lparr>id' = 2, question = ''Find the population of Canada'', dependancies = [],
         node_type = SINGLE_QUESTION, original_question = False\<rparr>) ''node_type'' =
       Some (PyStr ''SINGLE'')"
  using QueryType_members_and_values
          [where i = "Some 4" and q = "Some ''Calculate the difference''"
             and ds = "Some [2, 3]" and s = "''MERGE_MULTIPLE_RESPONSES''" and oq = None
             and r = "\<lparr>id' = 4, question = ''Calculate the difference'',
                        dependancies = [2, 3], node_type = MERGE_MULTIPLE_RESPONSES,
                        original_question = False\<rparr>"]
        QueryType_members_and_values
          [where i = "Some 2" and q = "Some ''Find the population of Canada''"
             and ds = None and oq = None
             and r = "\<lparr>id' = 2, question = ''Find the population of Canada'',
                        dependancies = [], node_type = SINGLE_QUESTION,
                        original_question = False\<rparr>"]
  by (simp add: Query_init_def validate_required_def validate_default_def
        validate_node_type_def QueryType_call_cases)

text \<open>
  The claim as the specification words it names the second member \<^verbatim>\<open>MERGE\<close>. The
  enumeration has no member of that name and none of that value, and a node built with
  the kind \<^verbatim>\<open>"MERGE"\<close> is refused.
\<close>

theorem QueryType_MERGE_counterexample:
  "''MERGE'' \<notin> set (map QueryType_name QueryType_members)
   \<and> ''MERGE'' \<notin> set (map QueryType_value QueryType_members)
   \<and> QueryType_call ''MERGE'' = None
   \<and> Query_init (Some 1) (Some ''Find the population of Canada'') None (Some ''MERGE'') None =
       Inl (ValidationError [([Key ''node_type''], NotAnEnumMember)])"
  by (simp add: QueryType_members_def QueryType_call_cases Query_init_def
        validate_required_def validate_node_type_def errors_of_def)

text \<open>
  Claim C10. \<^verbatim>\<open>QueryType(v)\<close> yields a member exactly for the strings \<^verbatim>\<open>"SINGLE"\<close> and
  \<^verbatim>\<open>"MERGE_MULTIPLE_RESPONSES"\<close>, the member with that value; a \<^verbatim>\<open>Query\<close> built with
  any other string for \<^verbatim>\<open>node_type\<close> fails with a validation error on that field.
\<close>

theorem node_type_accepts_exactly_values:
  "QueryType_call ''SINGLE'' = Some SINGLE_QUESTION
   \<and> QueryType_call ''MERGE_MULTIPLE_RESPONSES'' = Some MERGE_MULTIPLE_RESPONSES
   \<and> (s \<noteq> ''SINGLE'' \<and> s \<noteq> ''MERGE_MULTIPLE_RESPONSES'' \<longrightarrow>
        QueryType_call s = None
        \<and> Query_init (Some i) (Some q) ds (Some s) oq =
            Inl (ValidationError [([Key ''node_type''], NotAnEnumMember)]))
   \<and> (s = ''SINGLE'' \<or> s = ''MERGE_MULTIPLE_RESPONSES'' \<longrightarrow>
        (\<exists>r. Query_init (Some i) (Some q) ds (Some s) oq = Inr r
             \<and> QueryType_value (node_type r) = s))"
  by (auto simp: QueryType_call_cases Query_init_def validate_required_def
        validate_node_type_def errors_of_def)

text \<open>
  The member's name is not its value: \<^verbatim>\<open>"SINGLE_QUESTION"\<close> is refused, \<^verbatim>\<open>"SINGLE"\<close>
  is accepted.
\<close>

theorem node_type_accepts_exactly_values_witness:
  "''SINGLE_QUESTION'' \<noteq> ''SINGLE'' \<and> ''SINGLE_QUESTION'' \<noteq> ''MERGE_MULTIPLE_RESPONSES''
   \<and> QueryType_call ''SINGLE_QUESTION'' = None
   \<and> Query_init (Some 1) (Some ''Find the population of Canada'') None
        (Some ''SINGLE_QUESTION'') None =
       Inl (ValidationError [([Key ''node_type''], NotAnEnumMember)])
   \<and> (\<exists>r. Query_init (Some 1) (Some ''Find the population of Canada'') None
             (Some ''SINGLE'') None = Inr r
          \<and> QueryType_value (node_type r) = ''SINGLE'')"
  using node_type_accepts_exactly_values
          [where s = "''SINGLE_QUESTION''" and i = 1
             and q = "''Find the population of Canada''" and ds = None and oq = None]
        node_type_accepts_exactly_values
          [where s = "''SINGLE''" and i = 1
             and q = "''Find the population of Canada''" and ds = None and oq = None]
  by simp

subsection \<open>Construction\<close>

text \<open>
  Claim C6. A \<^verbatim>\<open>Query\<close> built from an id and a question alone has an empty dependency
  list, the kind \<^verbatim>\<open>SINGLE_QUESTION\<close> and the root flag \<^verbatim>\<open>False\<close>.
\<close>

theorem Query_init_defaults:
  "Query_init (Some i) (Some q) None None None =
     Inr \<lparr>id' = i, question = q, dependancies = [], node_type = SINGLE_QUESTION,
          original_question = False\<rparr>"
  by (simp add: Query_init_def validate_required_def validate_default_def
        validate_node_type_def)

text \<open>
  Claim C9. Construction checks no structure. Whatever the integer id, the question
  string and the list of dependency ids are, \<^verbatim>\<open>Query(...)\<close> succeeds (with the kind left
  out or given by a member's value) and stores them. Whatever the list handed to
  \<^verbatim>\<open>QueryPlan(query_graph=...)\<close> is, of \<^verbatim>\<open>Query\<close> objects, of the keyword arguments of
  such nodes as a parsed response holds them, or of both mixed, the plan is constructed
  and holds one node per element, in order. So every list of nodes, well-formed as a
  graph or not, is a plan.
\<close>

theorem construction_unchecked:
  "Query_init (Some i) (Some q) (Some ds) (map_option QueryType_value nt) oq =
     Inr \<lparr>id' = i, question = q, dependancies = ds,
          node_type = (case nt of None \<Rightarrow> SINGLE_QUESTION | Some m \<Rightarrow> m),
          original_question = (case oq of None \<Rightarrow> False | Some b \<Rightarrow> b)\<rparr>
   \<and> QueryPlan_init (Some (map Instance qs)) = Inr \<lparr>query_graph = qs\<rparr>
   \<and> QueryPlan_init
        (Some (map (case_sum Instance
                      (\<lambda>(i, q, ds, nt, oq).
                         Kwargs (Some i) (Some q) ds (map_option QueryType_value nt) oq)) xs)) =
       Inr \<lparr>query_graph =
              map (case_sum (\<lambda>q. q)
                     (\<lambda>(i, q, ds, nt, oq).
                        \<lparr>id' = i, question = q,
                         dependancies = (case ds of None \<Rightarrow> [] | Some d \<Rightarrow> d),
                         node_type = (case nt of None \<Rightarrow> SINGLE_QUESTION | Some m \<Rightarrow> m),
                         original_question = (case oq of None \<Rightarrow> False | Some b \<Rightarrow> b)\<rparr>)) xs\<rparr>"
  by (simp add: Query_init_supplied QueryPlan_init_def validate_items_Instance
        validate_items_typed)

text \<open>
  At a plan handed over as keyword arguments and an object mixed, with a zero and a
  negative id, an empty question, a repeated dependency, a dependency on itself, a
  dependency on a node that is not there, two nodes that depend on each other, and two
  nodes with the same id.
\<close>

theorem construction_unchecked_witness:
  "Query_init (Some 0) (Some '''') (Some [0, 0, 99]) None None =
     Inr \<lparr>id' = 0, question = '''', dependancies = [0, 0, 99], node_type = SINGLE_QUESTION,
          original_question = False\<rparr>
   \<and> QueryPlan_init (Some
        [Kwargs (Some 0) (Some '''') (Some [0, 0, 99]) None None,
         Kwargs (Some 1) (Some ''a'') (Some [- 2]) (Some ''SINGLE'') None,
         Instance \<lparr>id' = - 2, question = ''b'', dependancies = [1],
                   node_type = MERGE_MULTIPLE_RESPONSES, original_question = True\<rparr>,
         Kwargs (Some 1) (Some ''c'') None None (Some True)]) =
     Inr \<lparr>query_graph =
        [\<lparr>id' = 0, question = '''', dependancies = [0, 0, 99], node_type = SINGLE_QUESTION,
          original_question = False\<rparr>,
         \<lparr>id' = 1, question = ''a'', dependancies = [- 2], node_type = SINGLE_QUESTION,
          original_question = False\<rparr>,
         \<lparr>id' = - 2, question = ''b'', dependancies = [1], node_type = MERGE_MULTIPLE_RESPONSES,
          original_question = True\<rparr>,
         \<lparr>id' = 1, question = ''c'', dependancies = [], node_type = SINGLE_QUESTION,
          original_question = True\<rparr>]\<rparr>"
  using construction_unchecked
          [where i = 0 and q = "''''" and ds = "[0, 0, 99]" and nt = None and oq = None
             and qs = "[]"
             and xs = "[Inr (0, '''', Some [0, 0, 99], None, None),
                        Inr (1, ''a'', Some [- 2], Some SINGLE_QUESTION, None),
                        Inl \<lparr>id' = - 2, question = ''b'', dependancies = [1],
                              node_type = MERGE_MULTIPLE_RESPONSES, original_question = True\<rparr>,
                        Inr (1, ''c'', None, None, Some True)]"]
  by simp

text \<open>
  Claim C3, amended. The id of a constructed \<^verbatim>\<open>Query\<close> is the integer that was
  supplied and its question is the string that was supplied, whatever they are; and the
  nodes of a constructed plan are the validated elements of the argument list, one per
  element and in their order, none dropped or merged. The data model puts no positivity
  or uniqueness on ids and no non-emptiness on questions.
\<close>

theorem Query_fields_as_supplied:
  "(QueryPlan_init (Some as) = Inr p \<longrightarrow> map Query_validate as = map Inr (query_graph p))
   \<and> (Query_init (Some i) (Some q) ds nt oq = Inr r \<longrightarrow> id' r = i \<and> question r = q)"
  using QueryPlan_init_nodes [of as p] Query_init_fields [of i q ds nt oq r] by blast

theorem Query_fields_as_supplied_witness:
  "QueryPlan_init
     (Some [Kwargs (Some (- 1)) (Some '''') (Some [- 1]) None None,
            Instance \<lparr>id' = - 1, question = ''x'', dependancies = [],
                      node_type = SINGLE_QUESTION, original_question = False\<rparr>]) =
     Inr \<lparr>query_graph =
            [\<lparr>id' = - 1, question = '''', dependancies = [- 1],
              node_type = SINGLE_QUESTION, original_question = False\<rparr>,
             \<lparr>id' = - 1, question = ''x'', dependancies = [],
              node_type = SINGLE_QUESTION, original_question = False\<rparr>]\<rparr>
   \<and> map Query_validate
        [Kwargs (Some (- 1)) (Some '''') (Some [- 1]) None None,
         Instance \<lparr>id' = - 1, question = ''x'', dependancies = [],
                   node_type = SINGLE_QUESTION, original_question = False\<rparr>] =
       map Inr
        (query_graph
           \<lparr>query_graph =
              [\<lparr>id' = - 1, question = '''', dependancies = [- 1],
                node_type = SINGLE_QUESTION, original_question = False\<rparr>,
               \<lparr>id' = - 1, question = ''x'', dependancies = [],
                node_type = SINGLE_QUESTION, original_question = False\<rparr>]\<rparr>)
   \<and> Query_init (Some (- 1)) (Some '''') (Some [- 1]) None None =
       Inr \<lparr>id' = - 1, question = '''', dependancies = [- 1],
            node_type = SINGLE_QUESTION, original_question = False\<rparr>
   \<and> id' \<lparr>id' = - 1, question = '''', dependancies = [- 1],
            node_type = SINGLE_QUESTION, original_question = False\<rparr> = - 1
   \<and> question \<lparr>id' = - 1, question = '''', dependancies = [- 1],
                 node_type = SINGLE_QUESTION, original_question = False\<rparr> = ''''"
  using Query_fields_as_supplied
          [where as = "[Kwargs (Some (- 1)) (Some '''') (Some [- 1]) None None,
                        Instance \<lparr>id' = - 1, question = ''x'', dependancies = [],
                                  node_type = SINGLE_QUESTION, original_question = False\<rparr>]"
             and p = "\<lparr>query_graph =
                         [\<lparr>id' = - 1, question = '''', dependancies = [- 1],
                           node_type = SINGLE_QUESTION, original_question = False\<rparr>,
                          \<lparr>id' = - 1, question = ''x'', dependancies = [],
                           node_type = SINGLE_QUESTION, original_question = False\<rparr>]\<rparr>"
             and i = "- 1" and q = "''''" and ds = "Some [- 1]" and nt = None and oq = None
             and r = "\<lparr>id' = - 1, question = '''', dependancies = [- 1],
                        node_type = SINGLE_QUESTION, original_question = False\<rparr>"]
  by (simp add: QueryPlan_init_def Query_init_def validate_required_def validate_default_def
        validate_node_type_def)

text \<open>
  The claim as the specification words it (a positive id, unique within the graph, and a
  non-empty question) fails: a plan is constructed from two nodes that both have the id
  \<open>0\<close> and the empty question.
\<close>

theorem Query_positive_unique_nonempty_counterexample:
  "QueryPlan_init (Some [Kwargs (Some 0) (Some '''') None None None,
                         Kwargs (Some 0) (Some '''') None None None]) =
     Inr \<lparr>query_graph =
            [\<lparr>id' = 0, question = '''', dependancies = [], node_type = SINGLE_QUESTION,
              original_question = False\<rparr>,
             \<lparr>id' = 0, question = '''', dependancies = [], node_type = SINGLE_QUESTION,
              original_question = False\<rparr>]\<rparr>
   \<and> \<not> 0 < id' \<lparr>id' = 0, question = '''', dependancies = [], node_type = SINGLE_QUESTION,
                   original_question = False\<rparr>
   \<and> question \<lparr>id' = 0, question = '''', dependancies = [], node_type = SINGLE_QUESTION,
                 original_question = False\<rparr> = ''''
   \<and> \<not> distinct (map id'
          [\<lparr>id' = 0, question = '''', dependancies = [], node_type = SINGLE_QUESTION,
            original_question = False\<rparr>,
           \<lparr>id' = 0, question = '''', dependancies = [], node_type = SINGLE_QUESTION,
            original_question = False\<rparr>])"
  by (simp add: QueryPlan_init_def Query_init_def validate_required_def validate_default_def
        validate_node_type_def)

subsection \<open>The serialized form\<close>

text \<open>
  Claim C5, amended. The dictionary of a plan has the one key \<^verbatim>\<open>query_graph\<close>, whose
  value is the list of the node dictionaries in order; the dictionary of a node has
  exactly the keys \<^verbatim>\<open>id\<close> (an integer), \<^verbatim>\<open>question\<close> (a string), \<^verbatim>\<open>dependancies\<close>
  (a list of integers), \<^verbatim>\<open>node_type\<close> (a string) and \<^verbatim>\<open>original_question\<close>
  (a boolean). The dependency list is under the key \<^verbatim>\<open>dependancies\<close>, as the field is
  declared, not under \<^verbatim>\<open>dependencies\<close>.
\<close>

theorem plan_dict_shape:
  "dict_keys (QueryPlan_dict p) = [''query_graph'']
   \<and> dict_get (QueryPlan_dict p) ''query_graph'' =
       Some (PyList (map Query_dict (query_graph p)))
   \<and> dict_keys (Query_dict q) =
       [''id'', ''question'', ''dependancies'', ''node_type'', ''original_question'']
   \<and> map_option is_int (dict_get (Query_dict q) ''id'') = Some True
   \<and> map_option is_str (dict_get (Query_dict q) ''question'') = Some True
   \<and> map_option is_int_list (dict_get (Query_dict q) ''dependancies'') = Some True
   \<and> map_option is_str (dict_get (Query_dict q) ''node_type'') = Some True
   \<and> map_option is_bool (dict_get (Query_dict q) ''original_question'') = Some True"
  by (simp add: QueryPlan_dict_def Query_dict_def list_all_iff)

text \<open>
  The last node of the plan quoted in the source: its record has no key
  \<^verbatim>\<open>dependencies\<close>.
\<close>

theorem dict_key_dependencies_counterexample:
  "QueryPlan_dict
     \<lparr>query_graph =
        [\<lparr>id' = 4, question = ''Calculate the difference in populations'',
          dependancies = [2, 3], node_type = SINGLE_QUESTION, original_question = False\<rparr>]\<rparr> =
     PyDict [(''query_graph'',
       PyList [PyDict [(''id'', PyInt 4),
                       (''question'', PyStr ''Calculate the difference in populations''),
                       (''dependancies'', PyList [PyInt 2, PyInt 3]),
                       (''node_type'', PyStr ''SINGLE''),
                       (''original_question'', PyBool False)]])]
   \<and> ''dependencies'' \<notin> set (dict_keys (Query_dict
        \<lparr>id' = 4, question = ''Calculate the difference in populations'',
         dependancies = [2, 3], node_type = SINGLE_QUESTION, original_question = False\<rparr>))
   \<and> dict_get (Query_dict
        \<lparr>id' = 4, question = ''Calculate the difference in populations'',
         dependancies = [2, 3], node_type = SINGLE_QUESTION, original_question = False\<rparr>)
        ''dependencies'' = None"
  by (simp add: QueryPlan_dict_def Query_dict_def)

section \<open>What the source does not define\<close>

text \<open>
  The source holds no operation on a constructed plan besides \<^verbatim>\<open>dict()\<close>: it defines no
  check of the ids or of the dependency relation, no ordering of the nodes and no error
  type for either, and it neither changes a plan nor declares it frozen. The classes
  above, their construction and their dictionary view are all of the data model there is
  to embed.
\<close>

end
